theory Spec2Isabelle
  imports Complex_Main "HOL-Library.AList"
begin

section \<open>Data model\<close>

text \<open>
  The per-user cart and order caches of the shop front end
  (\<^verbatim>\<open>src/store/slices/cartSlice.ts\<close>, \<^verbatim>\<open>ordersSlice.ts\<close>, \<^verbatim>\<open>authSlice.ts\<close>) and the
  configuration of the session-timeout unit (\<^verbatim>\<open>AutoLogoutProvider\<close>, \<^verbatim>\<open>useAutoLogout\<close>,
  \<^verbatim>\<open>App.jsx\<close>).

  Conventions of the embedding.
  \<^item> A JavaScript object used as a dictionary is an association list in insertion order:
    \<open>obj[k]\<close> is \<open>map_of obj k\<close> (\<open>None\<close> for \<^verbatim>\<open>undefined\<close>), \<open>obj[k] = v\<close> is
    \<open>AList.update k v obj\<close> (replace in place, else append), \<open>delete obj[k]\<close> is
    \<open>AList.delete k obj\<close>, \<open>Object.keys(obj).length === 0\<close> is \<open>obj = []\<close>.
  \<^item> The association list holds the object's own keys. In the code \<open>obj[k]\<close> also finds
    what the object inherits from \<^verbatim>\<open>Object.prototype\<close>, so for the twelve names in
    \<open>Object_prototype_keys\<close> a reducer reads and writes built-in objects outside the cart.
    The definitions give the code's result for every other key (\<open>plain_key\<close>), with
    \<^verbatim>\<open>Object.prototype\<close> as the language defines it, and each statement below that looks
    a key up assumes \<open>plain_key\<close> of it.
  \<^item> \<^verbatim>\<open>string | null\<close> is \<open>string option\<close>; \<open>!x\<close> holds for \<^verbatim>\<open>null\<close> and for the empty
    string.
  \<^item> Reducers write to \<^verbatim>\<open>localStorage\<close> as a side effect, so a reducer maps a pair of the
    durable storage and the slice state to such a pair. Toast notifications and console
    logging have no state and are left out.
\<close>

subsection \<open>Numbers\<close>

text \<open>
  What a slot declared \<^verbatim>\<open>number\<close> holds at run time: a finite value, \<^verbatim>\<open>NaN\<close>, an infinity,
  or \<^verbatim>\<open>null\<close>, which is what \<^verbatim>\<open>JSON.parse\<close> gives back for a \<^verbatim>\<open>NaN\<close> or an infinity that
  \<^verbatim>\<open>JSON.stringify\<close> wrote. A finite value is kept as the rational it denotes; \<open>0\<close> and
  \<open>-0\<close> are not told apart.
\<close>

datatype number = Finite rat | NaN | PosInfinity | NegInfinity | Null

text \<open>Truthiness, \<open>n > 0\<close> and the conversion \<^verbatim>\<open>null\<close> to \<open>0\<close> that \<open>+\<close> applies.\<close>

definition truthy_number :: "number \<Rightarrow> bool" where
  "truthy_number n =
     (case n of Finite r \<Rightarrow> r \<noteq> 0 | NaN \<Rightarrow> False | PosInfinity \<Rightarrow> True
      | NegInfinity \<Rightarrow> True | Null \<Rightarrow> False)"

definition greater_than_zero :: "number \<Rightarrow> bool" where
  "greater_than_zero n =
     (case n of Finite r \<Rightarrow> 0 < r | NaN \<Rightarrow> False | PosInfinity \<Rightarrow> True
      | NegInfinity \<Rightarrow> False | Null \<Rightarrow> False)"

fun to_number :: "number \<Rightarrow> number" where
  "to_number Null = Finite 0"
| "to_number n = n"

text \<open>
  \<open>a + b\<close> on numbers. The sum of two finite values is the exact sum: that is what the
  code computes when the operands and the sum are integers of magnitude at most \<open>2^53\<close>
  (beyond that range, and for fractions, the code rounds to the nearest double). The
  statements below that depend on a sum assume that range. \<open>add_numbers\<close> is applied
  after \<open>to_number\<close>; its last equation covers \<^verbatim>\<open>NaN\<close> operands and the sum of opposite
  infinities.
\<close>

fun add_numbers :: "number \<Rightarrow> number \<Rightarrow> number" where
  "add_numbers (Finite x) (Finite y) = Finite (x + y)"
| "add_numbers (Finite x) PosInfinity = PosInfinity"
| "add_numbers (Finite x) NegInfinity = NegInfinity"
| "add_numbers PosInfinity (Finite y) = PosInfinity"
| "add_numbers PosInfinity PosInfinity = PosInfinity"
| "add_numbers NegInfinity (Finite y) = NegInfinity"
| "add_numbers NegInfinity NegInfinity = NegInfinity"
| "add_numbers a b = NaN"

definition plus_number :: "number \<Rightarrow> number \<Rightarrow> number" where
  "plus_number a b = add_numbers (to_number a) (to_number b)"

text \<open>\<^verbatim>\<open>JSON.stringify\<close> writes \<^verbatim>\<open>null\<close> for \<^verbatim>\<open>NaN\<close> and for the infinities.\<close>

definition json_number :: "number \<Rightarrow> number" where
  "json_number n =
     (case n of Finite r \<Rightarrow> Finite r | NaN \<Rightarrow> Null | PosInfinity \<Rightarrow> Null
      | NegInfinity \<Rightarrow> Null | Null \<Rightarrow> Null)"

subsection \<open>Keys\<close>

text \<open>The property names of \<^verbatim>\<open>Object.prototype\<close>, which every plain object inherits.\<close>

definition Object_prototype_keys :: "string list" where
  "Object_prototype_keys =
     [''constructor'', ''__proto__'', ''hasOwnProperty'', ''isPrototypeOf'',
      ''propertyIsEnumerable'', ''toLocaleString'', ''toString'', ''valueOf'',
      ''__defineGetter__'', ''__defineSetter__'', ''__lookupGetter__'', ''__lookupSetter__'']"

definition plain_key :: "string \<Rightarrow> bool" where
  "plain_key k = (k \<notin> set Object_prototype_keys)"

subsection \<open>Carts, orders, users\<close>

type_synonym CartItem = "(string \<times> number) list"
type_synonym CartItems = "(string \<times> CartItem) list"

record CartState =
  cartItems :: CartItems
  currentUserId :: "string option"

datatype OrderStatus = Pending | Confirmed | Processing | Shipped | Delivered | Cancelled

datatype PaymentMethod = Cod | Card | Paypal | Bank_transfer

record OrderItem =
  item_itemId :: string
  item_size :: string
  item_quantity :: number
  item_price :: number
  item_name :: "string option"
  item_image :: "string option"

record DeliveryInfo =
  firstName :: string
  lastName :: string
  delivery_email :: string
  street :: string
  city :: string
  state :: string
  zipcode :: string
  country :: string
  phone :: string

text \<open>The \<^verbatim>\<open>items\<close> of an order: a cart-shaped object or an array of order items.\<close>

datatype OrderItems = Items_object CartItems | Items_array "OrderItem list"

record Order =
  order_id :: string
  order_userId :: string
  items :: OrderItems
  deliveryInfo :: DeliveryInfo
  paymentMethod :: PaymentMethod
  totalAmount :: number
  status :: OrderStatus
  createdAt :: string
  estimatedDelivery :: string

record OrdersState =
  orders :: "Order list"
  orders_currentUserId :: "string option"
  orders_isLoading :: bool

text \<open>
  Modelled from the spec: the declarations of \<^verbatim>\<open>User\<close>, \<^verbatim>\<open>UserWithPassword\<close>,
  \<^verbatim>\<open>LoginCredentials\<close> and \<^verbatim>\<open>AuthState\<close>, which \<^verbatim>\<open>authSlice.ts\<close> imports from a types
  module that is not among the sources. The spec's principal is
  \<^verbatim>\<open>{ id, email, name, avatar, createdAt }\<close> and the directory record adds the password;
  these are the fields \<^verbatim>\<open>registerUser\<close> fills in, \<^verbatim>\<open>loginUser\<close> compares the \<^verbatim>\<open>email\<close> and
  \<^verbatim>\<open>password\<close> of the credentials, and \<^verbatim>\<open>initialState\<close> lists the fields of \<^verbatim>\<open>AuthState\<close>.
\<close>

record User =
  user_id :: string
  name :: string
  email :: string
  user_createdAt :: string
  avatar :: string

record UserWithPassword = User +
  password :: string

record LoginCredentials =
  login_email :: string
  login_password :: string

record AuthState =
  user :: "User option"
  isAuthenticated :: bool
  isLoading :: bool
  error :: "string option"
  users :: "UserWithPassword list"

subsection \<open>Durable storage\<close>

text \<open>
  A stored text is kept by what \<^verbatim>\<open>JSON.parse\<close> makes of it: the empty string (falsy, never
  parsed), a non-empty text that \<^verbatim>\<open>JSON.parse\<close> rejects with a \<^verbatim>\<open>SyntaxError\<close>, or a text
  that encodes a value. The loaders are declared to return \<^verbatim>\<open>CartItems\<close> and \<^verbatim>\<open>Order[]\<close>, so
  the texts under \<^verbatim>\<open>cart_...\<close> keys encode carts and those under \<^verbatim>\<open>orders_...\<close> keys encode
  order lists; the store is split accordingly, each part indexed by the full key string.
  A text that parses to a value of another shape (such as \<^verbatim>\<open>null\<close>), and a store whose
  access itself throws, are not modelled.
\<close>

datatype 'a stored = Empty_text | Malformed | Encoded 'a

datatype exn = SyntaxError

definition JSON_parse :: "'a stored \<Rightarrow> exn + 'a" where
  "JSON_parse t = (case t of Encoded v \<Rightarrow> Inr v | Malformed \<Rightarrow> Inl SyntaxError
                   | Empty_text \<Rightarrow> Inl SyntaxError)"

text \<open>
  \<^verbatim>\<open>JSON.stringify\<close> is applied to carts, to order lists and to users. The text it writes
  encodes the value with every \<^verbatim>\<open>NaN\<close> and infinity replaced by \<^verbatim>\<open>null\<close>: \<open>json_cart\<close> and
  \<open>json_orders\<close> are that replacement, a user has strings only. Strings, finite numbers
  and key order come back from \<^verbatim>\<open>JSON.parse\<close> as they were.
\<close>

definition json_item :: "CartItem \<Rightarrow> CartItem" where
  "json_item item = map (\<lambda>(sz, q). (sz, json_number q)) item"

definition json_cart :: "CartItems \<Rightarrow> CartItems" where
  "json_cart cart = map (\<lambda>(itemId, item). (itemId, json_item item)) cart"

definition json_order_item :: "OrderItem \<Rightarrow> OrderItem" where
  "json_order_item i =
     i\<lparr>item_quantity := json_number (item_quantity i), item_price := json_number (item_price i)\<rparr>"

definition json_order_items :: "OrderItems \<Rightarrow> OrderItems" where
  "json_order_items its =
     (case its of Items_object cart \<Rightarrow> Items_object (json_cart cart)
      | Items_array xs \<Rightarrow> Items_array (map json_order_item xs))"

definition json_orders :: "Order list \<Rightarrow> Order list" where
  "json_orders os =
     map (\<lambda>order. order\<lparr>items := json_order_items (items order),
                          totalAmount := json_number (totalAmount order)\<rparr>) os"

definition JSON_stringify :: "('a \<Rightarrow> 'a) \<Rightarrow> 'a \<Rightarrow> 'a stored" where
  "JSON_stringify json v = Encoded (json v)"

definition truthy_text :: "'a stored \<Rightarrow> bool" where
  "truthy_text t = (case t of Empty_text \<Rightarrow> False | Malformed \<Rightarrow> True | Encoded v \<Rightarrow> True)"

record localStorage =
  user_item :: "User stored option"
  users_item :: "UserWithPassword list stored option"
  cart_item :: "string \<Rightarrow> CartItems stored option"
  orders_item :: "string \<Rightarrow> Order list stored option"

definition cartKey :: "string \<Rightarrow> string" where
  "cartKey userId = ''cart_'' @ userId"

definition ordersKey :: "string \<Rightarrow> string" where
  "ordersKey userId = ''orders_'' @ userId"

text \<open>\<open>!userId\<close> for a \<^verbatim>\<open>string | null\<close>.\<close>

definition falsy :: "string option \<Rightarrow> bool" where
  "falsy u = (case u of None \<Rightarrow> True | Some s \<Rightarrow> s = [])"

section \<open>The cart slice\<close>

subsection \<open>Loading and saving a cart\<close>

text \<open>
  The body of the \<^verbatim>\<open>try\<close> block of \<^verbatim>\<open>loadCartFromStorage\<close>: it returns a cart or throws
  what \<^verbatim>\<open>JSON.parse\<close> throws.
\<close>

definition loadCartFromStorage_try :: "string option \<Rightarrow> localStorage \<Rightarrow> exn + CartItems" where
  "loadCartFromStorage_try userId ls =
     (case userId of
        None \<Rightarrow> Inr []
      | Some u \<Rightarrow>
          if u = [] then Inr []
          else (case cart_item ls (cartKey u) of
                  None \<Rightarrow> Inr []
                | Some storedCart \<Rightarrow>
                    if truthy_text storedCart then JSON_parse storedCart else Inr []))"

text \<open>The \<^verbatim>\<open>catch\<close> clause turns every exception into the empty cart.\<close>

definition loadCartFromStorage :: "string option \<Rightarrow> localStorage \<Rightarrow> CartItems" where
  "loadCartFromStorage userId ls =
     (case loadCartFromStorage_try userId ls of Inl e \<Rightarrow> [] | Inr c \<Rightarrow> c)"

definition saveCartToStorage :: "CartItems \<Rightarrow> string option \<Rightarrow> localStorage \<Rightarrow> localStorage" where
  "saveCartToStorage cart userId ls =
     (case userId of
        None \<Rightarrow> ls
      | Some u \<Rightarrow>
          if u = [] then ls
          else ls\<lparr>cart_item := (cart_item ls)(cartKey u \<mapsto> JSON_stringify json_cart cart)\<rparr>)"

definition removeCartFromStorage :: "string \<Rightarrow> localStorage \<Rightarrow> localStorage" where
  "removeCartFromStorage userId ls =
     (if userId = [] then ls
      else ls\<lparr>cart_item := (cart_item ls)(cartKey userId := None)\<rparr>)"

subsection \<open>Reducers\<close>

definition initialState :: CartState where
  "initialState = \<lparr>cartItems = [], currentUserId = None\<rparr>"

definition initializeCart :: "string \<Rightarrow> localStorage \<times> CartState \<Rightarrow> localStorage \<times> CartState" where
  "initializeCart userId w =
     (case w of (ls, st) \<Rightarrow>
        (ls, st\<lparr>currentUserId := Some userId,
                cartItems := loadCartFromStorage (Some userId) ls\<rparr>))"

definition clearCartOnLogout :: "localStorage \<times> CartState \<Rightarrow> localStorage \<times> CartState" where
  "clearCartOnLogout w =
     (case w of (ls, st) \<Rightarrow> (ls, st\<lparr>cartItems := [], currentUserId := None\<rparr>))"

text \<open>
  The branch of \<^verbatim>\<open>addToCart\<close> that edits the copy \<^verbatim>\<open>cartData\<close>, for plain keys: an existing
  truthy quantity gets \<open>+= 1\<close>, a missing or falsy quantity becomes \<open>1\<close>, a missing item
  gets a fresh object with the one size.
\<close>

definition addToCart_data :: "string \<Rightarrow> string \<Rightarrow> CartItems \<Rightarrow> CartItems" where
  "addToCart_data itemId sz cartData =
     (case map_of cartData itemId of
        Some item \<Rightarrow>
          (case map_of item sz of
             Some q \<Rightarrow>
               if truthy_number q
               then AList.update itemId (AList.update sz (plus_number q (Finite 1)) item) cartData
               else AList.update itemId (AList.update sz (Finite 1) item) cartData
           | None \<Rightarrow> AList.update itemId (AList.update sz (Finite 1) item) cartData)
      | None \<Rightarrow> AList.update itemId [(sz, Finite 1)] cartData)"

definition addToCart :: "string \<Rightarrow> string \<Rightarrow> localStorage \<times> CartState \<Rightarrow> localStorage \<times> CartState" where
  "addToCart itemId sz w =
     (case w of (ls, st) \<Rightarrow>
        if sz = [] then w
        else if falsy (currentUserId st) then w
        else
          let cartData = addToCart_data itemId sz (cartItems st)
          in (saveCartToStorage cartData (currentUserId st) ls, st\<lparr>cartItems := cartData\<rparr>))"

text \<open>
  \<^verbatim>\<open>delete cartData[itemId][size]\<close> followed by the removal of the item when no size is
  left; shared by \<^verbatim>\<open>updateQuantity\<close>, \<^verbatim>\<open>removeFromCart\<close> and \<^verbatim>\<open>removeSelectedItems\<close>, which
  each write it out.
\<close>

definition delete_size :: "string \<Rightarrow> string \<Rightarrow> CartItem \<Rightarrow> CartItems \<Rightarrow> CartItems" where
  "delete_size itemId sz item cartData =
     (let item' = AList.delete sz item
      in if item' = [] then AList.delete itemId cartData
         else AList.update itemId item' cartData)"

text \<open>
  The edit of \<^verbatim>\<open>updateQuantity\<close>, for plain keys. \<open>quantity === 0\<close> holds for the number
  zero only; any other payload is stored as it is.
\<close>

definition updateQuantity_data :: "string \<Rightarrow> string \<Rightarrow> number \<Rightarrow> CartItems \<Rightarrow> CartItems" where
  "updateQuantity_data itemId sz quantity cartData =
     (if quantity = Finite 0 then
        (case map_of cartData itemId of
           Some item \<Rightarrow> delete_size itemId sz item cartData
         | None \<Rightarrow> cartData)
      else
        (case map_of cartData itemId of
           None \<Rightarrow> AList.update itemId (AList.update sz quantity []) cartData
         | Some item \<Rightarrow> AList.update itemId (AList.update sz quantity item) cartData))"

definition updateQuantity ::
  "string \<Rightarrow> string \<Rightarrow> number \<Rightarrow> localStorage \<times> CartState \<Rightarrow> localStorage \<times> CartState" where
  "updateQuantity itemId sz quantity w =
     (case w of (ls, st) \<Rightarrow>
        if falsy (currentUserId st) then w
        else
          let cartData = updateQuantity_data itemId sz quantity (cartItems st)
          in (saveCartToStorage cartData (currentUserId st) ls, st\<lparr>cartItems := cartData\<rparr>))"

text \<open>
  \<^verbatim>\<open>if (cartData[itemId] && cartData[itemId][size])\<close>, for plain keys: the item exists and
  the quantity is present and truthy.
\<close>

definition remove_entry :: "string \<Rightarrow> string \<Rightarrow> CartItems \<Rightarrow> CartItems" where
  "remove_entry itemId sz cartData =
     (case map_of cartData itemId of
        Some item \<Rightarrow>
          (case map_of item sz of
             Some q \<Rightarrow> if truthy_number q then delete_size itemId sz item cartData else cartData
           | None \<Rightarrow> cartData)
      | None \<Rightarrow> cartData)"

definition removeFromCart :: "string \<Rightarrow> string \<Rightarrow> localStorage \<times> CartState \<Rightarrow> localStorage \<times> CartState" where
  "removeFromCart itemId sz w =
     (case w of (ls, st) \<Rightarrow>
        if falsy (currentUserId st) then w
        else
          let cartData = remove_entry itemId sz (cartItems st)
          in (saveCartToStorage cartData (currentUserId st) ls, st\<lparr>cartItems := cartData\<rparr>))"

text \<open>The \<^verbatim>\<open>forEach\<close> over the selected items, in order.\<close>

fun remove_selected :: "(string \<times> string) list \<Rightarrow> CartItems \<Rightarrow> CartItems" where
  "remove_selected [] cartData = cartData"
| "remove_selected ((itemId, sz) # selectedItems) cartData =
     remove_selected selectedItems (remove_entry itemId sz cartData)"

definition removeSelectedItems ::
  "(string \<times> string) list \<Rightarrow> localStorage \<times> CartState \<Rightarrow> localStorage \<times> CartState" where
  "removeSelectedItems selectedItems w =
     (case w of (ls, st) \<Rightarrow>
        if falsy (currentUserId st) then w
        else if length selectedItems = 0 then w
        else
          let cartData = remove_selected selectedItems (cartItems st)
          in (saveCartToStorage cartData (currentUserId st) ls, st\<lparr>cartItems := cartData\<rparr>))"

definition clearCart :: "localStorage \<times> CartState \<Rightarrow> localStorage \<times> CartState" where
  "clearCart w =
     (case w of (ls, st) \<Rightarrow>
        if falsy (currentUserId st) then w
        else if cartItems st = [] then w
        else (saveCartToStorage [] (currentUserId st) ls, st\<lparr>cartItems := []\<rparr>))"

definition deleteUserCart :: "string \<Rightarrow> localStorage \<times> CartState \<Rightarrow> localStorage \<times> CartState" where
  "deleteUserCart userId w =
     (case w of (ls, st) \<Rightarrow>
        (removeCartFromStorage userId ls,
         if currentUserId st = Some userId then st\<lparr>cartItems := []\<rparr> else st))"

text \<open>The actions of the slice and its reducer.\<close>

datatype cart_action =
    InitializeCart string
  | ClearCartOnLogout
  | AddToCart string string
  | UpdateQuantity string string number
  | RemoveFromCart string string
  | RemoveSelectedItems "(string \<times> string) list"
  | ClearCart
  | DeleteUserCart string

fun cartReducer :: "cart_action \<Rightarrow> localStorage \<times> CartState \<Rightarrow> localStorage \<times> CartState" where
  "cartReducer (InitializeCart userId) w = initializeCart userId w"
| "cartReducer ClearCartOnLogout w = clearCartOnLogout w"
| "cartReducer (AddToCart itemId sz) w = addToCart itemId sz w"
| "cartReducer (UpdateQuantity itemId sz quantity) w = updateQuantity itemId sz quantity w"
| "cartReducer (RemoveFromCart itemId sz) w = removeFromCart itemId sz w"
| "cartReducer (RemoveSelectedItems selectedItems) w = removeSelectedItems selectedItems w"
| "cartReducer ClearCart w = clearCart w"
| "cartReducer (DeleteUserCart userId) w = deleteUserCart userId w"

text \<open>A sequence of dispatched cart actions, applied in order.\<close>

fun cart_run :: "cart_action list \<Rightarrow> localStorage \<times> CartState \<Rightarrow> localStorage \<times> CartState" where
  "cart_run [] w = w"
| "cart_run (a # as) w = cart_run as (cartReducer a w)"

subsection \<open>Selectors\<close>

text \<open>
  The two nested \<^verbatim>\<open>for ... in\<close> loops of \<^verbatim>\<open>selectCartCount\<close>, with the running total:
  \<open>totalCount += q\<close> for every own entry with \<open>q > 0\<close>. The total is the exact sum of
  \<open>plus_number\<close>, which is the code's total as long as the quantities added are integers
  and the total stays at most \<open>2^53\<close>.
\<close>

fun count_sizes :: "CartItem \<Rightarrow> number \<Rightarrow> number" where
  "count_sizes [] totalCount = totalCount"
| "count_sizes ((sz, q) # rest) totalCount =
     count_sizes rest (if greater_than_zero q then plus_number totalCount q else totalCount)"

fun count_items :: "CartItems \<Rightarrow> number \<Rightarrow> number" where
  "count_items [] totalCount = totalCount"
| "count_items ((item, sizes) # rest) totalCount =
     count_items rest (count_sizes sizes totalCount)"

text \<open>The root state, as far as the selectors and thunks below read it.\<close>

record RootState =
  auth_state :: AuthState
  cart_state :: CartState
  orders_state :: OrdersState

definition selectCartCount :: "RootState \<Rightarrow> number" where
  "selectCartCount rootState =
     (if falsy (currentUserId (cart_state rootState)) then Finite 0
      else count_items (cartItems (cart_state rootState)) (Finite 0))"

section \<open>The orders slice\<close>

definition loadOrdersFromStorage_try :: "string option \<Rightarrow> localStorage \<Rightarrow> exn + Order list" where
  "loadOrdersFromStorage_try userId ls =
     (case userId of
        None \<Rightarrow> Inr []
      | Some u \<Rightarrow>
          if u = [] then Inr []
          else (case orders_item ls (ordersKey u) of
                  None \<Rightarrow> Inr []
                | Some storedOrders \<Rightarrow>
                    if truthy_text storedOrders then JSON_parse storedOrders else Inr []))"

definition loadOrdersFromStorage :: "string option \<Rightarrow> localStorage \<Rightarrow> Order list" where
  "loadOrdersFromStorage userId ls =
     (case loadOrdersFromStorage_try userId ls of Inl e \<Rightarrow> [] | Inr os \<Rightarrow> os)"

definition saveOrdersToStorage :: "Order list \<Rightarrow> string option \<Rightarrow> localStorage \<Rightarrow> localStorage" where
  "saveOrdersToStorage os userId ls =
     (case userId of
        None \<Rightarrow> ls
      | Some u \<Rightarrow>
          if u = [] then ls
          else ls\<lparr>orders_item := (orders_item ls)(ordersKey u \<mapsto> JSON_stringify json_orders os)\<rparr>)"

definition orders_initialState :: OrdersState where
  "orders_initialState = \<lparr>orders = [], orders_currentUserId = None, orders_isLoading = False\<rparr>"

definition initializeOrders ::
  "string \<Rightarrow> localStorage \<times> OrdersState \<Rightarrow> localStorage \<times> OrdersState" where
  "initializeOrders userId w =
     (case w of (ls, st) \<Rightarrow>
        (ls, st\<lparr>orders_currentUserId := Some userId,
                orders := loadOrdersFromStorage (Some userId) ls\<rparr>))"

definition clearOrdersOnLogout :: "localStorage \<times> OrdersState \<Rightarrow> localStorage \<times> OrdersState" where
  "clearOrdersOnLogout w =
     (case w of (ls, st) \<Rightarrow> (ls, st\<lparr>orders := [], orders_currentUserId := None\<rparr>))"

text \<open>
  \<^verbatim>\<open>addOrder\<close> reads the clock three times; the strings it gets (\<^verbatim>\<open>Date.now().toString()\<close>
  and the two ISO dates) come with the action.
\<close>

record clock =
  now_id :: string
  now_createdAt :: string
  now_estimatedDelivery :: string

record AddOrderPayload =
  payload_paymentMethod :: "PaymentMethod option"
  payload_totalAmount :: number
  payload_cartItems :: OrderItems
  payload_deliveryInfo :: DeliveryInfo

definition addOrder ::
  "clock \<Rightarrow> AddOrderPayload \<Rightarrow> localStorage \<times> OrdersState \<Rightarrow> localStorage \<times> OrdersState" where
  "addOrder c p w =
     (case w of (ls, st) \<Rightarrow>
        (case orders_currentUserId st of
           None \<Rightarrow> w
         | Some u \<Rightarrow>
             if u = [] then w
             else
               let newOrder =
                     \<lparr>order_id = now_id c,
                      order_userId = u,
                      items = payload_cartItems p,
                      deliveryInfo = payload_deliveryInfo p,
                      paymentMethod =
                        (case payload_paymentMethod p of None \<Rightarrow> Cod | Some m \<Rightarrow> m),
                      totalAmount = payload_totalAmount p,
                      status = Confirmed,
                      createdAt = now_createdAt c,
                      estimatedDelivery = now_estimatedDelivery c\<rparr>;
                   os = newOrder # orders st
               in (saveOrdersToStorage os (Some u) ls, st\<lparr>orders := os\<rparr>)))"

text \<open>\<^verbatim>\<open>Array.prototype.findIndex\<close>, with \<open>None\<close> for \<open>-1\<close>.\<close>

fun findIndex :: "('a \<Rightarrow> bool) \<Rightarrow> 'a list \<Rightarrow> nat option" where
  "findIndex P [] = None"
| "findIndex P (x # xs) =
     (if P x then Some 0 else (case findIndex P xs of None \<Rightarrow> None | Some i \<Rightarrow> Some (Suc i)))"

definition updateOrderStatus ::
  "string \<Rightarrow> OrderStatus \<Rightarrow> localStorage \<times> OrdersState \<Rightarrow> localStorage \<times> OrdersState" where
  "updateOrderStatus orderId new_status w =
     (case w of (ls, st) \<Rightarrow>
        if falsy (orders_currentUserId st) then w
        else (case findIndex (\<lambda>order. order_id order = orderId) (orders st) of
                None \<Rightarrow> w
              | Some orderIndex \<Rightarrow>
                  let os = (orders st)[orderIndex := (orders st ! orderIndex)\<lparr>status := new_status\<rparr>]
                  in (saveOrdersToStorage os (orders_currentUserId st) ls, st\<lparr>orders := os\<rparr>)))"

definition cancelOrder ::
  "string \<Rightarrow> localStorage \<times> OrdersState \<Rightarrow> localStorage \<times> OrdersState" where
  "cancelOrder orderId w =
     (case w of (ls, st) \<Rightarrow>
        if falsy (orders_currentUserId st) then w
        else (case findIndex (\<lambda>order. order_id order = orderId) (orders st) of
                None \<Rightarrow> w
              | Some orderIndex \<Rightarrow>
                  let os = (orders st)[orderIndex := (orders st ! orderIndex)\<lparr>status := Cancelled\<rparr>]
                  in (saveOrdersToStorage os (orders_currentUserId st) ls, st\<lparr>orders := os\<rparr>)))"

definition setLoading :: "bool \<Rightarrow> localStorage \<times> OrdersState \<Rightarrow> localStorage \<times> OrdersState" where
  "setLoading b w = (case w of (ls, st) \<Rightarrow> (ls, st\<lparr>orders_isLoading := b\<rparr>))"

datatype orders_action =
    InitializeOrders string
  | ClearOrdersOnLogout
  | AddOrder clock AddOrderPayload
  | UpdateOrderStatus string OrderStatus
  | CancelOrder string
  | SetLoading bool

fun ordersReducer ::
  "orders_action \<Rightarrow> localStorage \<times> OrdersState \<Rightarrow> localStorage \<times> OrdersState" where
  "ordersReducer (InitializeOrders userId) w = initializeOrders userId w"
| "ordersReducer ClearOrdersOnLogout w = clearOrdersOnLogout w"
| "ordersReducer (AddOrder c p) w = addOrder c p w"
| "ordersReducer (UpdateOrderStatus orderId new_status) w = updateOrderStatus orderId new_status w"
| "ordersReducer (CancelOrder orderId) w = cancelOrder orderId w"
| "ordersReducer (SetLoading b) w = setLoading b w"

section \<open>The auth slice\<close>

definition saveUserToStorage :: "User option \<Rightarrow> localStorage \<Rightarrow> localStorage" where
  "saveUserToStorage u ls =
     (case u of
        Some v \<Rightarrow> ls\<lparr>user_item := Some (JSON_stringify (\<lambda>x. x) v)\<rparr>
      | None \<Rightarrow> ls\<lparr>user_item := None\<rparr>)"

definition loginStart :: "localStorage \<times> AuthState \<Rightarrow> localStorage \<times> AuthState" where
  "loginStart w = (case w of (ls, st) \<Rightarrow> (ls, st\<lparr>isLoading := True, error := None\<rparr>))"

definition loginSuccess :: "User \<Rightarrow> localStorage \<times> AuthState \<Rightarrow> localStorage \<times> AuthState" where
  "loginSuccess u w =
     (case w of (ls, st) \<Rightarrow>
        (saveUserToStorage (Some u) ls,
         st\<lparr>isLoading := False, user := Some u, isAuthenticated := True, error := None\<rparr>))"

definition loginFailure :: "string \<Rightarrow> localStorage \<times> AuthState \<Rightarrow> localStorage \<times> AuthState" where
  "loginFailure msg w =
     (case w of (ls, st) \<Rightarrow>
        (ls, st\<lparr>isLoading := False, user := None, isAuthenticated := False, error := Some msg\<rparr>))"

definition logout :: "localStorage \<times> AuthState \<Rightarrow> localStorage \<times> AuthState" where
  "logout w =
     (case w of (ls, st) \<Rightarrow>
        (saveUserToStorage None ls,
         st\<lparr>user := None, isAuthenticated := False, error := None\<rparr>))"

text \<open>
  The actions of the auth slice that the login and logout thunks dispatch; registration
  and profile editing are not needed below.
\<close>

datatype auth_action = LoginStart | LoginSuccess User | LoginFailure string | Logout

fun authReducer :: "auth_action \<Rightarrow> localStorage \<times> AuthState \<Rightarrow> localStorage \<times> AuthState" where
  "authReducer LoginStart w = loginStart w"
| "authReducer (LoginSuccess u) w = loginSuccess u w"
| "authReducer (LoginFailure msg) w = loginFailure msg w"
| "authReducer Logout w = logout w"

section \<open>The store and the thunks\<close>

text \<open>
  \<^verbatim>\<open>store.ts\<close> combines the slice reducers and installs the default middleware only, so a
  dispatched action reaches exactly the reducer of its slice. The shop and ui slices hold
  no user-scoped data and are left out.
\<close>

datatype action = Auth auth_action | Cart cart_action | Orders orders_action

fun dispatch :: "action \<Rightarrow> localStorage \<times> RootState \<Rightarrow> localStorage \<times> RootState" where
  "dispatch (Auth a) (ls, rootState) =
     (case authReducer a (ls, auth_state rootState) of (ls', st) \<Rightarrow> (ls', rootState\<lparr>auth_state := st\<rparr>))"
| "dispatch (Cart a) (ls, rootState) =
     (case cartReducer a (ls, cart_state rootState) of (ls', st) \<Rightarrow> (ls', rootState\<lparr>cart_state := st\<rparr>))"
| "dispatch (Orders a) (ls, rootState) =
     (case ordersReducer a (ls, orders_state rootState) of (ls', st) \<Rightarrow> (ls', rootState\<lparr>orders_state := st\<rparr>))"

text \<open>
  \<^verbatim>\<open>loginUser\<close> dispatches \<^verbatim>\<open>loginStart\<close> at once and does the rest in a callback one second
  later, on the state of that moment. \<open>loginUser\<close> is the run in which nothing else is
  dispatched in between.
\<close>

definition loginUser_timeout ::
  "LoginCredentials \<Rightarrow> localStorage \<times> RootState \<Rightarrow> localStorage \<times> RootState" where
  "loginUser_timeout credentials w =
     (case find (\<lambda>u. email u = login_email credentials \<and> password u = login_password credentials)
             (users (auth_state (snd w))) of
        Some u \<Rightarrow>
          dispatch (Orders (InitializeOrders (user_id u)))
            (dispatch (Cart (InitializeCart (user_id u)))
               (dispatch (Auth (LoginSuccess (User.truncate u))) w))
      | None \<Rightarrow> dispatch (Auth (LoginFailure ''Email or password is incorrect.'')) w)"

definition loginUser ::
  "LoginCredentials \<Rightarrow> localStorage \<times> RootState \<Rightarrow> localStorage \<times> RootState" where
  "loginUser credentials w = loginUser_timeout credentials (dispatch (Auth LoginStart) w)"

definition logoutUser :: "localStorage \<times> RootState \<Rightarrow> localStorage \<times> RootState" where
  "logoutUser w =
     dispatch (Auth Logout)
       (dispatch (Orders ClearOrdersOnLogout) (dispatch (Cart ClearCartOnLogout) w))"

definition initializeApp :: "localStorage \<times> RootState \<Rightarrow> localStorage \<times> RootState" where
  "initializeApp w =
     (case user (auth_state (snd w)) of
        Some u \<Rightarrow>
          if isAuthenticated (auth_state (snd w)) \<and> user_id u \<noteq> [] then
            dispatch (Orders (InitializeOrders (user_id u)))
              (dispatch (Cart (InitializeCart (user_id u))) w)
          else dispatch (Orders ClearOrdersOnLogout) (dispatch (Cart ClearCartOnLogout) w)
      | None \<Rightarrow> dispatch (Orders ClearOrdersOnLogout) (dispatch (Cart ClearCartOnLogout) w))"

section \<open>Configuration of the session timeout\<close>









section \<open>Notions used in the statements\<close>

text \<open>
  The entry stored in a cart for an item and a size: the object's own property
  \<open>cartItems[itemId][size]\<close>, \<open>None\<close> when there is none.
\<close>

definition quantity_at :: "CartItems \<Rightarrow> string \<Rightarrow> string \<Rightarrow> number option" where
  "quantity_at cart itemId sz =
     (case map_of cart itemId of None \<Rightarrow> None | Some item \<Rightarrow> map_of item sz)"

text \<open>
  A positive integer of at most \<open>n\<close>; an item, a cart, and a durable storage all of whose
  quantities are such.
\<close>

definition count_upto :: "int \<Rightarrow> number \<Rightarrow> bool" where
  "count_upto n q =
     (case q of Finite r \<Rightarrow> r \<in> \<int> \<and> 0 < r \<and> r \<le> of_int n | NaN \<Rightarrow> False
      | PosInfinity \<Rightarrow> False | NegInfinity \<Rightarrow> False | Null \<Rightarrow> False)"

definition item_counts :: "int \<Rightarrow> CartItem \<Rightarrow> bool" where
  "item_counts n item = list_all (\<lambda>(sz, q). count_upto n q) item"

definition cart_counts :: "int \<Rightarrow> CartItems \<Rightarrow> bool" where
  "cart_counts n cart = list_all (\<lambda>(itemId, item). item_counts n item) cart"

definition storage_counts :: "int \<Rightarrow> localStorage \<Rightarrow> bool" where
  "storage_counts n ls =
     (\<forall>k cart. cart_item ls k = Some (Encoded cart) \<longrightarrow> cart_counts n cart)"

definition world_counts :: "int \<Rightarrow> localStorage \<times> CartState \<Rightarrow> bool" where
  "world_counts n w = (storage_counts n (fst w) \<and> cart_counts n (cartItems (snd w)))"

text \<open>
  A cart action whose item ids and sizes are plain keys and whose payload quantity, if it
  has one, is \<open>0\<close> or a positive integer of at most \<open>M\<close>.
\<close>

fun action_ok :: "int \<Rightarrow> cart_action \<Rightarrow> bool" where
  "action_ok M (AddToCart itemId sz) = (plain_key itemId \<and> plain_key sz)"
| "action_ok M (UpdateQuantity itemId sz quantity) =
     (plain_key itemId \<and> plain_key sz \<and> (quantity = Finite 0 \<or> count_upto M quantity))"
| "action_ok M (RemoveFromCart itemId sz) = (plain_key itemId \<and> plain_key sz)"
| "action_ok M (RemoveSelectedItems selectedItems) =
     list_all (\<lambda>(itemId, sz). plain_key itemId \<and> plain_key sz) selectedItems"
| "action_ok M a = True"

text \<open>An integer in the range where adding \<open>1\<close> is exact.\<close>

definition safe_integer :: "number \<Rightarrow> bool" where
  "safe_integer q =
     (case q of Finite r \<Rightarrow> r \<in> \<int> \<and> \<bar>r\<bar> \<le> 2 ^ 53 - 1 | NaN \<Rightarrow> False
      | PosInfinity \<Rightarrow> False | NegInfinity \<Rightarrow> False | Null \<Rightarrow> False)"

text \<open>A number, and a cart, that \<^verbatim>\<open>JSON.stringify\<close> writes without loss.\<close>

definition expressible :: "number \<Rightarrow> bool" where
  "expressible q =
     (case q of Finite r \<Rightarrow> True | NaN \<Rightarrow> False | PosInfinity \<Rightarrow> False
      | NegInfinity \<Rightarrow> False | Null \<Rightarrow> True)"

definition expressible_cart :: "CartItems \<Rightarrow> bool" where
  "expressible_cart cart =
     list_all (\<lambda>(itemId, item). list_all (\<lambda>(sz, q). expressible q) item) cart"

text \<open>
  All quantities of a cart, entry by entry; what an entry adds to the count; the sum of the
  strictly positive quantities. A cart is counted exactly when each strictly positive
  quantity is an integer and their sum is at most \<open>2^53\<close>: the running total of the code
  then never leaves the range where doubles add exactly.
\<close>

definition quantities :: "CartItems \<Rightarrow> number list" where
  "quantities cart = concat (map (\<lambda>(itemId, item). map snd item) cart)"

definition positive_part :: "number \<Rightarrow> rat" where
  "positive_part q =
     (case q of Finite r \<Rightarrow> (if 0 < r then r else 0) | NaN \<Rightarrow> 0 | PosInfinity \<Rightarrow> 0
      | NegInfinity \<Rightarrow> 0 | Null \<Rightarrow> 0)"

definition positive_total :: "CartItems \<Rightarrow> rat" where
  "positive_total cart = sum_list (map positive_part (quantities cart))"

definition countable_number :: "number \<Rightarrow> bool" where
  "countable_number q =
     (case q of Finite r \<Rightarrow> r \<le> 0 \<or> r \<in> \<int> | NaN \<Rightarrow> True | PosInfinity \<Rightarrow> False
      | NegInfinity \<Rightarrow> True | Null \<Rightarrow> True)"

definition exact_count :: "CartItems \<Rightarrow> bool" where
  "exact_count cart =
     (list_all countable_number (quantities cart) \<and> positive_total cart \<le> 2 ^ 53)"

text \<open>Concrete inputs: a storage with no key, a cart with one entry, a directory of one user.\<close>

definition empty_storage :: localStorage where
  "empty_storage =
     \<lparr>user_item = None, users_item = None, cart_item = Map.empty, orders_item = Map.empty\<rparr>"

definition cart_p1_M :: "number \<Rightarrow> CartItems" where
  "cart_p1_M q = [(''p1'', [(''M'', q)])]"

definition example_user :: UserWithPassword where
  "example_user =
     \<lparr>user_id = ''1700000000000'', name = ''Ann'', email = ''ann@example.com'',
      user_createdAt = ''2024-01-01T00:00:00.000Z'',
      avatar = ''https://ui-avatars.com/api/?name=Ann'', password = ''secret''\<rparr>"

definition example_root :: RootState where
  "example_root =
     \<lparr>auth_state = \<lparr>user = None, isAuthenticated = False, isLoading = False, error = None,
                     users = [example_user]\<rparr>,
      cart_state = initialState,
      orders_state = orders_initialState\<rparr>"

section \<open>Auxiliary lemmas\<close>

subsection \<open>What a load returns, what a save writes\<close>

lemma loadCartFromStorage_cases:
  "loadCartFromStorage (Some u) ls =
     (if u = [] then []
      else (case cart_item ls (cartKey u) of Some (Encoded V) \<Rightarrow> V | _ \<Rightarrow> []))"
  by (simp add: loadCartFromStorage_def loadCartFromStorage_try_def JSON_parse_def truthy_text_def
      split: option.split stored.split)

lemma saveCartToStorage_empty_key:
  "cart_item (saveCartToStorage cart u ls) (cartKey []) = cart_item ls (cartKey [])"
  by (simp add: saveCartToStorage_def cartKey_def split: option.split)

lemma removeCartFromStorage_empty_key:
  "cart_item ls (cartKey []) = None \<Longrightarrow>
   cart_item (removeCartFromStorage u ls) (cartKey []) = None"
  by (simp add: removeCartFromStorage_def)

lemma cartReducer_empty_key:
  "cart_item (fst w) (cartKey []) = None \<Longrightarrow>
   cart_item (fst (cartReducer a w)) (cartKey []) = None"
  by (cases a; cases w)
     (simp_all add: initializeCart_def clearCartOnLogout_def addToCart_def updateQuantity_def
        removeFromCart_def removeSelectedItems_def clearCart_def deleteUserCart_def Let_def
        saveCartToStorage_empty_key removeCartFromStorage_empty_key)

lemma cart_run_empty_key:
  "cart_item (fst w) (cartKey []) = None \<Longrightarrow>
   cart_item (fst (cart_run acts w)) (cartKey []) = None"
  by (induction acts arbitrary: w) (simp_all add: cartReducer_empty_key)

lemma json_item_expressible:
  "list_all (\<lambda>(sz, q). expressible q) item \<Longrightarrow> json_item item = item"
  by (induction item)
     (auto simp: json_item_def json_number_def expressible_def split: number.splits)

lemma json_cart_expressible: "expressible_cart cart \<Longrightarrow> json_cart cart = cart"
  by (induction cart)
     (auto simp: json_cart_def expressible_cart_def json_item_expressible)

subsection \<open>Entries after an edit\<close>

lemma quantity_at_addToCart_data_new:
  "quantity_at cart itemId sz = None \<Longrightarrow>
   quantity_at (addToCart_data itemId sz cart) itemId sz = Some (Finite 1)"
  by (simp add: quantity_at_def addToCart_data_def AList.update_conv' split: option.splits)

lemma quantity_at_addToCart_data_finite:
  assumes "quantity_at cart itemId sz = Some (Finite r)"
  shows "quantity_at (addToCart_data itemId sz cart) itemId sz = Some (Finite (r + 1))"
proof -
  from assms obtain item
    where item: "map_of cart itemId = Some item" "map_of item sz = Some (Finite r)"
    by (auto simp: quantity_at_def split: option.splits)
  show ?thesis
    by (cases "r = 0")
       (simp_all add: quantity_at_def addToCart_data_def item AList.update_conv'
          truthy_number_def plus_number_def)
qed

lemma quantity_at_updateQuantity_data_zero:
  "quantity_at (updateQuantity_data itemId sz (Finite 0) cart) itemId sz = None"
  by (simp add: quantity_at_def updateQuantity_data_def delete_size_def Let_def
      AList.update_conv' AList.delete_conv' split: option.split)

subsection \<open>Counts are preserved\<close>

lemma item_counts_set: "item_counts n item \<longleftrightarrow> (\<forall>(s, q) \<in> set item. count_upto n q)"
  by (simp add: item_counts_def list_all_iff)

lemma cart_counts_set: "cart_counts n cart \<longleftrightarrow> (\<forall>(i, item) \<in> set cart. item_counts n item)"
  by (simp add: cart_counts_def list_all_iff)

lemma count_upto_mono: "count_upto n q \<Longrightarrow> n \<le> m \<Longrightarrow> count_upto m q"
proof (cases q)
  case (Finite r)
  assume "count_upto n q" and "n \<le> m"
  then have "r \<in> \<int>" and "0 < r" and "r \<le> of_int n" and "(of_int n :: rat) \<le> of_int m"
    by (simp_all add: count_upto_def Finite)
  then show ?thesis
    by (simp add: count_upto_def Finite)
qed (simp_all add: count_upto_def)

lemma item_counts_mono: "item_counts n item \<Longrightarrow> n \<le> m \<Longrightarrow> item_counts m item"
  by (auto simp: item_counts_set intro: count_upto_mono)

lemma cart_counts_mono: "cart_counts n cart \<Longrightarrow> n \<le> m \<Longrightarrow> cart_counts m cart"
  by (auto simp: cart_counts_set intro: item_counts_mono)

lemma storage_counts_mono: "storage_counts n ls \<Longrightarrow> n \<le> m \<Longrightarrow> storage_counts m ls"
  by (auto simp: storage_counts_def intro: cart_counts_mono)

lemma world_counts_mono: "world_counts n w \<Longrightarrow> n \<le> m \<Longrightarrow> world_counts m w"
  by (auto simp: world_counts_def intro: cart_counts_mono storage_counts_mono)

lemma set_update_subset: "set (AList.update k v al) \<subseteq> insert (k, v) (set al)"
  by (induct al) auto

lemma set_delete_subset: "set (AList.delete k al) \<subseteq> set al"
  by (auto simp: AList.delete_eq)

lemma item_counts_update:
  "item_counts n item \<Longrightarrow> count_upto n q \<Longrightarrow> item_counts n (AList.update sz q item)"
  using set_update_subset [of sz q item] by (auto simp: item_counts_set)

lemma item_counts_delete: "item_counts n item \<Longrightarrow> item_counts n (AList.delete sz item)"
  using set_delete_subset [of sz item] by (auto simp: item_counts_set)

lemma cart_counts_update:
  "cart_counts n cart \<Longrightarrow> item_counts n item \<Longrightarrow> cart_counts n (AList.update itemId item cart)"
  using set_update_subset [of itemId item cart] by (auto simp: cart_counts_set)

lemma cart_counts_delete: "cart_counts n cart \<Longrightarrow> cart_counts n (AList.delete itemId cart)"
  using set_delete_subset [of itemId cart] by (auto simp: cart_counts_set)

lemma cart_counts_lookup:
  "cart_counts n cart \<Longrightarrow> map_of cart itemId = Some item \<Longrightarrow> item_counts n item"
  by (auto simp: cart_counts_set dest: map_of_SomeD)

lemma item_counts_lookup: "item_counts n item \<Longrightarrow> map_of item sz = Some q \<Longrightarrow> count_upto n q"
  by (auto simp: item_counts_set dest: map_of_SomeD)

lemma cart_counts_Nil: "cart_counts n []"
  by (simp add: cart_counts_def)

lemma count_upto_one: "0 \<le> n \<Longrightarrow> count_upto (n + 1) (Finite 1)"
  by (simp add: count_upto_def)

lemma count_upto_increment:
  assumes "count_upto n q"
  shows "truthy_number q \<and> count_upto (n + 1) (plus_number q (Finite 1))"
proof (cases q)
  case (Finite r)
  then have "r \<in> \<int>" and "0 < r" and "r \<le> of_int n"
    using assms by (simp_all add: count_upto_def)
  then show ?thesis
    by (simp add: Finite truthy_number_def plus_number_def count_upto_def)
qed (use assms in \<open>simp_all add: count_upto_def\<close>)

lemma addToCart_data_counts:
  assumes "cart_counts n cart" and "0 \<le> n"
  shows "cart_counts (n + 1) (addToCart_data itemId sz cart)"
proof -
  have cart: "cart_counts (n + 1) cart"
    using assms(1) by (rule cart_counts_mono) simp
  have one: "count_upto (n + 1) (Finite 1)"
    using assms(2) by (rule count_upto_one)
  show ?thesis
  proof (cases "map_of cart itemId")
    case None
    have "item_counts (n + 1) [(sz, Finite 1)]"
      using one by (simp add: item_counts_def)
    then show ?thesis
      using None cart by (simp add: addToCart_data_def cart_counts_update)
  next
    case (Some item)
    then have item: "item_counts (n + 1) item" and item_n: "item_counts n item"
      using cart assms(1) cart_counts_lookup by blast+
    show ?thesis
    proof (cases "map_of item sz")
      case None
      then show ?thesis
        using Some cart item one
        by (simp add: addToCart_data_def cart_counts_update item_counts_update)
    next
      case (Some q)
      then have "count_upto n q"
        using item_n item_counts_lookup by blast
      then have "truthy_number q" and "count_upto (n + 1) (plus_number q (Finite 1))"
        using count_upto_increment by blast+
      then show ?thesis
        using \<open>map_of cart itemId = Some item\<close> Some cart item
        by (simp add: addToCart_data_def cart_counts_update item_counts_update)
    qed
  qed
qed

lemma delete_size_counts:
  "cart_counts n cart \<Longrightarrow> item_counts n item \<Longrightarrow>
   cart_counts n (delete_size itemId sz item cart)"
  by (simp add: delete_size_def Let_def cart_counts_update cart_counts_delete
      item_counts_delete)

lemma updateQuantity_data_counts:
  assumes "cart_counts n cart" and "q = Finite 0 \<or> count_upto n q"
  shows "cart_counts n (updateQuantity_data itemId sz q cart)"
proof (cases "map_of cart itemId")
  case None
  have "count_upto n q \<Longrightarrow> item_counts n [(sz, q)]"
    by (simp add: item_counts_def)
  then show ?thesis
    using None assms by (auto simp: updateQuantity_data_def cart_counts_update)
next
  case (Some item)
  then have "item_counts n item"
    using assms(1) cart_counts_lookup by blast
  then show ?thesis
    using Some assms
    by (auto simp: updateQuantity_data_def cart_counts_update item_counts_update
        delete_size_counts)
qed

lemma remove_entry_counts:
  assumes "cart_counts n cart"
  shows "cart_counts n (remove_entry itemId sz cart)"
proof (cases "map_of cart itemId")
  case None
  then show ?thesis
    using assms by (simp add: remove_entry_def)
next
  case (Some item)
  then have "item_counts n item"
    using assms cart_counts_lookup by blast
  then show ?thesis
    using assms Some by (simp add: remove_entry_def delete_size_counts split: option.split)
qed

lemma remove_selected_counts:
  "cart_counts n cart \<Longrightarrow> cart_counts n (remove_selected selectedItems cart)"
proof (induction selectedItems arbitrary: cart)
  case Nil
  then show ?case by simp
next
  case (Cons p selectedItems)
  obtain itemId sz where p: "p = (itemId, sz)"
    by (cases p)
  show ?case
    using Cons.IH [OF remove_entry_counts [OF Cons.prems]] by (simp add: p)
qed

lemma count_upto_expressible: "count_upto n q \<Longrightarrow> expressible q"
  by (cases q) (simp_all add: count_upto_def expressible_def)

lemma item_counts_expressible:
  "item_counts n item \<Longrightarrow> list_all (\<lambda>(sz, q). expressible q) item"
  by (induction item) (auto simp: item_counts_def count_upto_expressible)

lemma cart_counts_expressible: "cart_counts n cart \<Longrightarrow> expressible_cart cart"
  by (induction cart)
     (auto simp: cart_counts_def expressible_cart_def item_counts_expressible)

lemma saveCartToStorage_counts:
  "storage_counts n ls \<Longrightarrow> cart_counts n cart \<Longrightarrow>
   storage_counts n (saveCartToStorage cart u ls)"
  by (auto simp: storage_counts_def saveCartToStorage_def JSON_stringify_def
      json_cart_expressible cart_counts_expressible split: option.splits if_splits)

lemma removeCartFromStorage_counts:
  "storage_counts n ls \<Longrightarrow> storage_counts n (removeCartFromStorage u ls)"
  by (auto simp: storage_counts_def removeCartFromStorage_def split: if_splits)

lemma loadCartFromStorage_counts:
  "storage_counts n ls \<Longrightarrow> cart_counts n (loadCartFromStorage u ls)"
  by (auto simp: storage_counts_def loadCartFromStorage_def loadCartFromStorage_try_def
      JSON_parse_def cart_counts_Nil split: option.splits if_splits sum.splits stored.splits)

lemma addToCart_counts:
  assumes "world_counts n w" and "0 \<le> n"
  shows "world_counts (n + 1) (addToCart itemId sz w)"
proof -
  obtain ls st where w: "w = (ls, st)"
    by (cases w)
  have up: "world_counts (n + 1) w"
    using assms(1) by (rule world_counts_mono) simp
  have "cart_counts (n + 1) (addToCart_data itemId sz (cartItems st))"
    using assms by (simp add: w world_counts_def addToCart_data_counts)
  then show ?thesis
    using up by (simp add: w world_counts_def addToCart_def Let_def saveCartToStorage_counts)
qed

lemma cartReducer_counts_same:
  assumes "world_counts n w" and "action_ok n a" and "\<forall>itemId sz. a \<noteq> AddToCart itemId sz"
  shows "world_counts n (cartReducer a w)"
  using assms
  by (cases a; cases w)
     (auto simp: world_counts_def initializeCart_def clearCartOnLogout_def
        updateQuantity_def removeFromCart_def removeSelectedItems_def clearCart_def
        deleteUserCart_def Let_def cart_counts_Nil
        intro!: saveCartToStorage_counts loadCartFromStorage_counts
          updateQuantity_data_counts remove_entry_counts remove_selected_counts
          removeCartFromStorage_counts)

lemma action_ok_mono: "action_ok M a \<Longrightarrow> M \<le> n \<Longrightarrow> action_ok n a"
  by (cases a) (auto intro: count_upto_mono)

lemma cartReducer_counts:
  assumes "world_counts n w" and "action_ok M a" and "M \<le> n" and "0 \<le> n"
  shows "world_counts (n + 1) (cartReducer a w)"
proof (cases "\<exists>itemId sz. a = AddToCart itemId sz")
  case True
  then show ?thesis
    using assms by (auto simp: addToCart_counts)
next
  case False
  have "world_counts n (cartReducer a w)"
    using assms(1) action_ok_mono [OF assms(2,3)] False by (intro cartReducer_counts_same) auto
  then show ?thesis
    by (rule world_counts_mono) simp
qed

lemma cart_run_counts:
  "world_counts n w \<Longrightarrow> list_all (action_ok M) acts \<Longrightarrow> M \<le> n \<Longrightarrow> 0 \<le> n \<Longrightarrow>
   world_counts (n + int (length acts)) (cart_run acts w)"
proof (induction acts arbitrary: w n)
  case Nil
  then show ?case by simp
next
  case (Cons a acts)
  have step: "world_counts (n + 1) (cartReducer a w)"
    using Cons.prems cartReducer_counts [of n w M a] by simp
  have eq: "n + 1 + int (length acts) = n + int (length (a # acts))"
    by simp
  have "world_counts (n + 1 + int (length acts)) (cart_run acts (cartReducer a w))"
    using Cons.IH [OF step] Cons.prems by simp
  then show ?case
    unfolding eq by simp
qed

subsection \<open>The loops of the cart count\<close>

lemma count_sizes_eq:
  "list_all countable_number (map snd item) \<Longrightarrow>
   count_sizes item (Finite a) = Finite (a + sum_list (map positive_part (map snd item)))"
proof (induction item arbitrary: a)
  case Nil
  then show ?case by simp
next
  case (Cons p item)
  obtain sz q where p: "p = (sz, q)"
    by (cases p)
  have q: "countable_number q" and rest: "list_all countable_number (map snd item)"
    using Cons.prems by (simp_all add: p)
  show ?case
  proof (cases "greater_than_zero q")
    case True
    then obtain r where r: "q = Finite r" "0 < r"
      using q by (cases q) (simp_all add: greater_than_zero_def countable_number_def)
    then show ?thesis
      using Cons.IH [OF rest, of "a + r"]
      by (simp add: p greater_than_zero_def plus_number_def positive_part_def add.assoc)
  next
    case False
    then have "positive_part q = 0"
      by (cases q) (simp_all add: greater_than_zero_def positive_part_def)
    then show ?thesis
      using Cons.IH [OF rest, of a] False by (simp add: p)
  qed
qed

lemma count_items_eq:
  "list_all countable_number (quantities cart) \<Longrightarrow>
   count_items cart (Finite a) = Finite (a + positive_total cart)"
proof (induction cart arbitrary: a)
  case Nil
  then show ?case
    by (simp add: positive_total_def quantities_def)
next
  case (Cons p cart)
  obtain itemId item where p: "p = (itemId, item)"
    by (cases p)
  have item: "list_all countable_number (map snd item)"
    and rest: "list_all countable_number (quantities cart)"
    using Cons.prems by (simp_all add: p quantities_def)
  show ?case
    using Cons.IH [OF rest, of "a + sum_list (map positive_part (map snd item))"]
    by (simp add: p count_sizes_eq [OF item] positive_total_def quantities_def add.assoc)
qed

section \<open>The claims\<close>

subsection \<open>C1: switching the active user\<close>

text \<open>
  C1: for every in-memory cart state \<open>st\<close> (any cart, any previous user) and every user id
  \<open>B\<close>, \<^verbatim>\<open>initializeCart(B)\<close> leaves the durable storage as it is, sets \<open>currentUserId\<close> to
  \<open>B\<close>, and replaces \<open>cartItems\<close> with the cart persisted under \<^verbatim>\<open>cart_B\<close>, the empty cart
  if nothing is persisted there. Every entry of the cart afterwards is an entry of the cart
  persisted under \<^verbatim>\<open>cart_B\<close>, so no entry of the previous in-memory cart is observable
  unless it is in \<open>B\<close>'s persisted cart.

  A user id is a non-empty string. The statement covers the empty string as well, as long
  as nothing is kept under the key \<^verbatim>\<open>cart_\<close>; its last part says that no sequence of cart
  actions ever puts anything there.
\<close>

theorem initializeCart_switches_user:
  assumes "B \<noteq> [] \<or> cart_item ls (cartKey []) = None"
  shows "fst (initializeCart B (ls, st)) = ls \<and>
         currentUserId (snd (initializeCart B (ls, st))) = Some B \<and>
         (cart_item ls (cartKey B) = Some (Encoded V) \<longrightarrow>
            cartItems (snd (initializeCart B (ls, st))) = V) \<and>
         (cart_item ls (cartKey B) = None \<longrightarrow>
            cartItems (snd (initializeCart B (ls, st))) = []) \<and>
         (quantity_at (cartItems (snd (initializeCart B (ls, st)))) itemId sz = Some q \<longrightarrow>
            (\<exists>V'. cart_item ls (cartKey B) = Some (Encoded V') \<and>
                  quantity_at V' itemId sz = Some q)) \<and>
         (cart_item ls (cartKey []) = None \<longrightarrow>
            cart_item (fst (cart_run acts (ls, st))) (cartKey []) = None)"
proof -
  have run: "cart_item ls (cartKey []) = None \<longrightarrow>
      cart_item (fst (cart_run acts (ls, st))) (cartKey []) = None"
    using cart_run_empty_key [of "(ls, st)" acts] by simp
  have "B = [] \<Longrightarrow> cart_item ls (cartKey B) = None"
    using assms by simp
  then show ?thesis
    using run
    by (auto simp: initializeCart_def loadCartFromStorage_cases quantity_at_def
        split: option.splits stored.splits)
qed

text \<open>
  At a concrete input: user \<open>u1\<close> has \<open>p1:{M:2}\<close> in memory and persisted. Switching to \<open>u2\<close>,
  who has nothing persisted, gives the empty cart; switching from \<open>u2\<close> to \<open>u1\<close> gives
  \<open>p1:{M:2}\<close>; the empty string on the empty storage gives the empty cart.
\<close>

theorem initializeCart_switches_user_witness:
  "''u2'' \<noteq> [] \<and>
   cartItems (snd (initializeCart ''u2''
     (saveCartToStorage (cart_p1_M (Finite 2)) (Some ''u1'') empty_storage,
      \<lparr>cartItems = cart_p1_M (Finite 2), currentUserId = Some ''u1''\<rparr>))) = [] \<and>
   cartItems (snd (initializeCart ''u1''
     (saveCartToStorage (cart_p1_M (Finite 2)) (Some ''u1'') empty_storage,
      \<lparr>cartItems = [], currentUserId = Some ''u2''\<rparr>))) = cart_p1_M (Finite 2) \<and>
   cart_item empty_storage (cartKey []) = None \<and>
   cartItems (snd (initializeCart []
     (empty_storage, \<lparr>cartItems = cart_p1_M (Finite 2), currentUserId = Some ''u1''\<rparr>))) = []"
  using
    initializeCart_switches_user [of "''u2''"
      "saveCartToStorage (cart_p1_M (Finite 2)) (Some ''u1'') empty_storage"
      "\<lparr>cartItems = cart_p1_M (Finite 2), currentUserId = Some ''u1''\<rparr>" "[]" "''p1''" "''M''"
      "Finite 2" "[]"]
    initializeCart_switches_user [of "''u1''"
      "saveCartToStorage (cart_p1_M (Finite 2)) (Some ''u1'') empty_storage"
      "\<lparr>cartItems = [], currentUserId = Some ''u2''\<rparr>" "cart_p1_M (Finite 2)" "''p1''" "''M''"
      "Finite 2" "[]"]
    initializeCart_switches_user [of "[]" empty_storage
      "\<lparr>cartItems = cart_p1_M (Finite 2), currentUserId = Some ''u1''\<rparr>" "[]" "''p1''" "''M''"
      "Finite 2" "[]"]
  by (simp add: saveCartToStorage_def empty_storage_def cartKey_def JSON_stringify_def
      json_cart_def json_item_def json_number_def cart_p1_M_def)

subsection \<open>C2: a persisted cart survives logout and login\<close>

text \<open>
  C2, as stated, for every cart value \<open>V\<close>: saving \<open>V\<close> for \<open>u\<close>, then \<^verbatim>\<open>clearCartOnLogout\<close>,
  then \<^verbatim>\<open>initializeCart(u)\<close> gives \<open>V\<close>. It fails for a cart that holds \<^verbatim>\<open>NaN\<close>:
  \<^verbatim>\<open>updateQuantity\<close> stores the payload \<^verbatim>\<open>NaN\<close> as it is (\<open>NaN === 0\<close> is false),
  \<^verbatim>\<open>JSON.stringify\<close> writes \<^verbatim>\<open>null\<close> for it, and after logout and login the cart holds
  \<^verbatim>\<open>null\<close> where it held \<^verbatim>\<open>NaN\<close>.
\<close>

theorem save_logout_login_NaN_counterexample:
  "cart_run [InitializeCart ''u1'', UpdateQuantity ''p1'' ''M'' NaN] (empty_storage, initialState)
     = (saveCartToStorage (cart_p1_M NaN) (Some ''u1'') empty_storage,
        \<lparr>cartItems = cart_p1_M NaN, currentUserId = Some ''u1''\<rparr>) \<and>
   cartItems (snd (initializeCart ''u1'' (clearCartOnLogout
      (saveCartToStorage (cart_p1_M NaN) (Some ''u1'') empty_storage,
       \<lparr>cartItems = cart_p1_M NaN, currentUserId = Some ''u1''\<rparr>)))) = cart_p1_M Null \<and>
   cart_p1_M Null \<noteq> cart_p1_M NaN"
  by (simp add: initializeCart_def clearCartOnLogout_def updateQuantity_def
      updateQuantity_data_def saveCartToStorage_def loadCartFromStorage_cases
      JSON_stringify_def json_cart_def json_item_def json_number_def cart_p1_M_def
      empty_storage_def initialState_def falsy_def Let_def cartKey_def)

text \<open>
  C2, amended to carts that \<^verbatim>\<open>JSON.stringify\<close> writes without loss: for every non-empty user
  id \<open>u\<close>, every cart \<open>V\<close> none of whose quantities is \<^verbatim>\<open>NaN\<close> or an infinity, every storage
  and every in-memory state, persisting \<open>V\<close> for \<open>u\<close> with \<^verbatim>\<open>saveCartToStorage\<close>, then
  dispatching \<^verbatim>\<open>clearCartOnLogout\<close> and \<^verbatim>\<open>initializeCart(u)\<close>, yields \<open>cartItems = V\<close>.
\<close>

theorem save_logout_login_roundtrip:
  "u \<noteq> [] \<Longrightarrow> expressible_cart V \<Longrightarrow>
   cartItems (snd (initializeCart u
      (clearCartOnLogout (saveCartToStorage V (Some u) ls, st)))) = V"
  by (simp add: initializeCart_def clearCartOnLogout_def saveCartToStorage_def
      loadCartFromStorage_cases JSON_stringify_def json_cart_expressible)

theorem save_logout_login_roundtrip_witness:
  "''u1'' \<noteq> [] \<and> expressible_cart (cart_p1_M (Finite 2)) \<and>
   cartItems (snd (initializeCart ''u1'' (clearCartOnLogout
      (saveCartToStorage (cart_p1_M (Finite 2)) (Some ''u1'') empty_storage,
       \<lparr>cartItems = cart_p1_M (Finite 2), currentUserId = Some ''u1''\<rparr>))))
     = [(''p1'', [(''M'', Finite 2)])]"
  using save_logout_login_roundtrip [of "''u1''" "cart_p1_M (Finite 2)" empty_storage
      "\<lparr>cartItems = cart_p1_M (Finite 2), currentUserId = Some ''u1''\<rparr>"]
  by (simp add: cart_p1_M_def expressible_cart_def expressible_def)

subsection \<open>C3: logout clears memory, not the durable storage\<close>

text \<open>
  C3: \<^verbatim>\<open>clearCartOnLogout\<close> and \<^verbatim>\<open>clearOrdersOnLogout\<close> empty the in-memory cart and orders
  and set \<open>currentUserId\<close> to null; they return the durable storage as they got it, also
  when dispatched one after the other through the store. The whole \<^verbatim>\<open>logoutUser\<close> thunk,
  which goes on to remove the key \<^verbatim>\<open>user\<close>, leaves the entries under \<^verbatim>\<open>cart_u\<close> and
  \<^verbatim>\<open>orders_u\<close> unchanged for every \<open>u\<close>.
\<close>

theorem logout_keeps_durable_storage:
  "clearCartOnLogout (ls, cs) = (ls, \<lparr>cartItems = [], currentUserId = None\<rparr>) \<and>
   fst (clearOrdersOnLogout (ls, os)) = ls \<and>
   orders (snd (clearOrdersOnLogout (ls, os))) = [] \<and>
   orders_currentUserId (snd (clearOrdersOnLogout (ls, os))) = None \<and>
   fst (dispatch (Orders ClearOrdersOnLogout) (dispatch (Cart ClearCartOnLogout) (ls, rootState)))
     = ls \<and>
   cart_item (fst (logoutUser (ls, rootState))) (cartKey u) = cart_item ls (cartKey u) \<and>
   orders_item (fst (logoutUser (ls, rootState))) (ordersKey u) = orders_item ls (ordersKey u)"
  by (simp add: clearCartOnLogout_def clearOrdersOnLogout_def logoutUser_def logout_def
      saveUserToStorage_def)

text \<open>
  At a concrete input: user \<open>u1\<close> is logged in with \<open>p1:{M:2}\<close> in memory and persisted.
  After \<^verbatim>\<open>logoutUser\<close> the in-memory cart is empty with no current user, and the entry
  under \<^verbatim>\<open>cart_u1\<close> still encodes \<open>p1:{M:2}\<close>.
\<close>

theorem logout_keeps_durable_storage_witness:
  "cart_state (snd (logoutUser
      (saveCartToStorage (cart_p1_M (Finite 2)) (Some ''u1'') empty_storage,
       example_root\<lparr>cart_state := \<lparr>cartItems = cart_p1_M (Finite 2), currentUserId = Some ''u1''\<rparr>\<rparr>)))
     = \<lparr>cartItems = [], currentUserId = None\<rparr> \<and>
   cart_item (fst (logoutUser
      (saveCartToStorage (cart_p1_M (Finite 2)) (Some ''u1'') empty_storage,
       example_root\<lparr>cart_state := \<lparr>cartItems = cart_p1_M (Finite 2), currentUserId = Some ''u1''\<rparr>\<rparr>)))
      (cartKey ''u1'') = Some (Encoded (cart_p1_M (Finite 2)))"
  using logout_keeps_durable_storage [of
      "saveCartToStorage (cart_p1_M (Finite 2)) (Some ''u1'') empty_storage"
      "\<lparr>cartItems = cart_p1_M (Finite 2), currentUserId = Some ''u1''\<rparr>" _
      "example_root\<lparr>cart_state := \<lparr>cartItems = cart_p1_M (Finite 2), currentUserId = Some ''u1''\<rparr>\<rparr>"
      "''u1''"]
  by (simp add: logoutUser_def logout_def saveUserToStorage_def saveCartToStorage_def
      clearOrdersOnLogout_def JSON_stringify_def json_cart_def json_item_def json_number_def
      cart_p1_M_def)

subsection \<open>C4: a failed login\<close>

text \<open>
  C4: when no user of the directory has both the email and the password of the credentials,
  \<^verbatim>\<open>loginUser\<close> ends with the error \<^verbatim>\<open>Email or password is incorrect.\<close>, \<open>isAuthenticated\<close>
  false and \<open>user\<close> null; the cart state, the orders state, the users directory and the
  durable storage are what they were. The deferred callback alone does the same from
  whatever state it finds.
\<close>

theorem loginUser_failure:
  assumes "\<forall>u \<in> set (users (auth_state rootState)).
             \<not> (email u = login_email credentials \<and> password u = login_password credentials)"
  shows "fst (loginUser credentials (ls, rootState)) = ls \<and>
         error (auth_state (snd (loginUser credentials (ls, rootState))))
           = Some ''Email or password is incorrect.'' \<and>
         \<not> isAuthenticated (auth_state (snd (loginUser credentials (ls, rootState)))) \<and>
         user (auth_state (snd (loginUser credentials (ls, rootState)))) = None \<and>
         users (auth_state (snd (loginUser credentials (ls, rootState)))) = users (auth_state rootState) \<and>
         cart_state (snd (loginUser credentials (ls, rootState))) = cart_state rootState \<and>
         orders_state (snd (loginUser credentials (ls, rootState))) = orders_state rootState \<and>
         loginUser_timeout credentials (ls, rootState) =
           (ls, rootState\<lparr>auth_state := (auth_state rootState)
                  \<lparr>isLoading := False, user := None, isAuthenticated := False,
                   error := Some ''Email or password is incorrect.''\<rparr>\<rparr>)"
proof -
  have "find (\<lambda>u. email u = login_email credentials \<and> password u = login_password credentials)
          (users (auth_state rootState)) = None"
    using assms by (simp add: find_None_iff)
  then show ?thesis
    by (simp add: loginUser_def loginUser_timeout_def loginStart_def loginFailure_def)
qed

text \<open>At a concrete input: the right email with a wrong password.\<close>

theorem loginUser_failure_witness:
  "users (auth_state example_root) = [example_user] \<and>
   email example_user = ''ann@example.com'' \<and>
   password example_user \<noteq> ''wrong'' \<and>
   error (auth_state (snd (loginUser
      \<lparr>login_email = ''ann@example.com'', login_password = ''wrong''\<rparr>
      (empty_storage, example_root)))) = Some ''Email or password is incorrect.'' \<and>
   cart_state (snd (loginUser
      \<lparr>login_email = ''ann@example.com'', login_password = ''wrong''\<rparr>
      (empty_storage, example_root))) = initialState"
  using loginUser_failure [of example_root
      "\<lparr>login_email = ''ann@example.com'', login_password = ''wrong''\<rparr>" empty_storage]
  by (simp add: example_root_def example_user_def)

subsection \<open>C5: no active user, no mutation\<close>

text \<open>
  C5: when \<open>currentUserId\<close> is null, \<^verbatim>\<open>addToCart\<close>, \<^verbatim>\<open>updateQuantity\<close>, \<^verbatim>\<open>removeFromCart\<close>,
  \<^verbatim>\<open>removeSelectedItems\<close>, \<^verbatim>\<open>clearCart\<close>, \<^verbatim>\<open>addOrder\<close>, \<^verbatim>\<open>updateOrderStatus\<close> and \<^verbatim>\<open>cancelOrder\<close>
  return the slice state (and the durable storage) unchanged, for every payload; and
  \<^verbatim>\<open>saveCartToStorage\<close> and \<^verbatim>\<open>saveOrdersToStorage\<close> with a null or an empty user id return
  the durable storage unchanged.
\<close>

theorem no_user_no_mutation:
  assumes "currentUserId cs = None" and "orders_currentUserId os = None"
  shows "addToCart itemId sz (ls, cs) = (ls, cs) \<and>
         updateQuantity itemId sz quantity (ls, cs) = (ls, cs) \<and>
         removeFromCart itemId sz (ls, cs) = (ls, cs) \<and>
         removeSelectedItems selectedItems (ls, cs) = (ls, cs) \<and>
         clearCart (ls, cs) = (ls, cs) \<and>
         addOrder c p (ls, os) = (ls, os) \<and>
         updateOrderStatus orderId new_status (ls, os) = (ls, os) \<and>
         cancelOrder orderId (ls, os) = (ls, os) \<and>
         saveCartToStorage cart None ls = ls \<and>
         saveCartToStorage cart (Some []) ls = ls \<and>
         saveOrdersToStorage ords None ls = ls \<and>
         saveOrdersToStorage ords (Some []) ls = ls"
  using assms
  by (simp add: addToCart_def updateQuantity_def removeFromCart_def removeSelectedItems_def
      clearCart_def addOrder_def updateOrderStatus_def cancelOrder_def saveCartToStorage_def
      saveOrdersToStorage_def falsy_def)

text \<open>
  At a concrete input: a cart left in memory with no user, and the initial orders state;
  adding \<open>p1/M\<close> and setting its quantity to \<open>3\<close> change nothing.
\<close>

theorem no_user_no_mutation_witness:
  "currentUserId \<lparr>cartItems = cart_p1_M (Finite 2), currentUserId = None\<rparr> = None \<and>
   orders_currentUserId orders_initialState = None \<and>
   addToCart ''p1'' ''M'' (empty_storage, \<lparr>cartItems = cart_p1_M (Finite 2), currentUserId = None\<rparr>)
     = (empty_storage, \<lparr>cartItems = cart_p1_M (Finite 2), currentUserId = None\<rparr>) \<and>
   updateQuantity ''p1'' ''M'' (Finite 3) (empty_storage, \<lparr>cartItems = cart_p1_M (Finite 2), currentUserId = None\<rparr>)
     = (empty_storage, \<lparr>cartItems = cart_p1_M (Finite 2), currentUserId = None\<rparr>) \<and>
   cancelOrder ''o1'' (empty_storage, orders_initialState) = (empty_storage, orders_initialState)"
  using no_user_no_mutation [of "\<lparr>cartItems = cart_p1_M (Finite 2), currentUserId = None\<rparr>"
      orders_initialState "''p1''" "''M''" empty_storage "Finite 3" _ _ _ "''o1''"]
  by (simp add: orders_initialState_def)

subsection \<open>C6: loading never fails\<close>

text \<open>
  C6: \<^verbatim>\<open>loadCartFromStorage\<close> returns \<^verbatim>\<open>{}\<close> and \<^verbatim>\<open>loadOrdersFromStorage\<close> returns \<^verbatim>\<open>[]\<close> when
  the user id is null, when nothing is stored under the user's key, and when the stored
  text does not parse; whatever the \<^verbatim>\<open>try\<close> block throws, the loader returns the empty
  default, so no exception reaches the caller.
\<close>

theorem load_defaults:
  "loadCartFromStorage None ls = [] \<and>
   (cart_item ls (cartKey u) = None \<longrightarrow> loadCartFromStorage (Some u) ls = []) \<and>
   (cart_item ls (cartKey u) = Some t \<and> JSON_parse t = Inl e \<longrightarrow>
      loadCartFromStorage (Some u) ls = []) \<and>
   (loadCartFromStorage_try userId ls = Inl e \<longrightarrow> loadCartFromStorage userId ls = []) \<and>
   loadOrdersFromStorage None ls = [] \<and>
   (orders_item ls (ordersKey u) = None \<longrightarrow> loadOrdersFromStorage (Some u) ls = []) \<and>
   (orders_item ls (ordersKey u) = Some t' \<and> JSON_parse t' = Inl e \<longrightarrow>
      loadOrdersFromStorage (Some u) ls = []) \<and>
   (loadOrdersFromStorage_try userId ls = Inl e \<longrightarrow> loadOrdersFromStorage userId ls = [])"
  by (simp add: loadCartFromStorage_def loadCartFromStorage_try_def loadOrdersFromStorage_def
      loadOrdersFromStorage_try_def JSON_parse_def truthy_text_def split: stored.splits)

text \<open>
  At a concrete input: texts that do not parse under \<^verbatim>\<open>cart_u1\<close> and \<^verbatim>\<open>orders_u1\<close>. The
  \<^verbatim>\<open>try\<close> blocks throw a \<^verbatim>\<open>SyntaxError\<close>; the loaders return the empty defaults.
\<close>

theorem load_defaults_witness:
  "cart_item (empty_storage\<lparr>cart_item := [cartKey ''u1'' \<mapsto> Malformed],
                            orders_item := [ordersKey ''u1'' \<mapsto> Malformed]\<rparr>) (cartKey ''u1'')
     = Some Malformed \<and>
   JSON_parse (Malformed :: CartItems stored) = Inl SyntaxError \<and>
   loadCartFromStorage_try (Some ''u1'')
     (empty_storage\<lparr>cart_item := [cartKey ''u1'' \<mapsto> Malformed],
                     orders_item := [ordersKey ''u1'' \<mapsto> Malformed]\<rparr>) = Inl SyntaxError \<and>
   loadCartFromStorage (Some ''u1'')
     (empty_storage\<lparr>cart_item := [cartKey ''u1'' \<mapsto> Malformed],
                     orders_item := [ordersKey ''u1'' \<mapsto> Malformed]\<rparr>) = [] \<and>
   loadOrdersFromStorage (Some ''u1'')
     (empty_storage\<lparr>cart_item := [cartKey ''u1'' \<mapsto> Malformed],
                     orders_item := [ordersKey ''u1'' \<mapsto> Malformed]\<rparr>) = []"
  using load_defaults [of
      "empty_storage\<lparr>cart_item := [cartKey ''u1'' \<mapsto> Malformed],
                      orders_item := [ordersKey ''u1'' \<mapsto> Malformed]\<rparr>"
      "''u1''" Malformed SyntaxError "Some ''u1''" Malformed]
  by (simp add: JSON_parse_def loadCartFromStorage_try_def truthy_text_def cartKey_def)

subsection \<open>C7: quantities in reachable cart states\<close>

text \<open>
  C7, as stated: in every cart state reachable from the empty initial state by the cart
  reducers, every stored quantity is a positive integer. It fails: \<^verbatim>\<open>updateQuantity\<close>
  removes the entry only for \<^verbatim>\<open>quantity === 0\<close> and stores any other payload. After
  \<^verbatim>\<open>initializeCart("u1")\<close> on an empty storage and
  \<^verbatim>\<open>updateQuantity({itemId: "p1", size: "M", quantity: -1})\<close> the cart holds \<open>-1\<close> at \<open>p1/M\<close>.
\<close>

theorem updateQuantity_negative_counterexample:
  "quantity_at (cartItems (snd (cart_run
      [InitializeCart ''u1'', UpdateQuantity ''p1'' ''M'' (Finite (- 1))]
      (empty_storage, initialState)))) ''p1'' ''M'' = Some (Finite (- 1)) \<and>
   \<not> (0 :: rat) < - 1"
  by (simp add: initializeCart_def updateQuantity_def updateQuantity_data_def
      loadCartFromStorage_cases empty_storage_def initialState_def falsy_def quantity_at_def
      Let_def)

text \<open>
  C7, amended: start from the empty initial state and a durable storage whose persisted
  carts hold only positive integers of at most \<open>M\<close> (the empty storage is one). Dispatch
  any sequence of cart actions (\<^verbatim>\<open>initializeCart\<close>, \<^verbatim>\<open>addToCart\<close>, \<^verbatim>\<open>updateQuantity\<close>,
  \<^verbatim>\<open>removeFromCart\<close>, \<^verbatim>\<open>removeSelectedItems\<close>, \<^verbatim>\<open>clearCart\<close>, \<^verbatim>\<open>clearCartOnLogout\<close>,
  \<^verbatim>\<open>deleteUserCart\<close>) in which every item id and size is a plain key (not the name of a
  property of \<^verbatim>\<open>Object.prototype\<close>) and every \<^verbatim>\<open>updateQuantity\<close> payload quantity is an
  integer from \<open>0\<close> to \<open>M\<close>, with \<open>M\<close> plus the number of actions at most \<open>2^53\<close>. Then every
  stored quantity \<open>cartItems[itemId][size]\<close> is a positive integer (of at most \<open>2^53\<close>). A
  zero quantity is the absence of the entry: for a logged-in user and plain keys,
  \<^verbatim>\<open>updateQuantity\<close> with quantity \<open>0\<close> leaves no entry at \<open>(itemId, size)\<close>.
\<close>

theorem reachable_quantities_positive:
  assumes "storage_counts M ls" and "list_all (action_ok M) acts"
    and "0 \<le> M" and "M + int (length acts) \<le> 2 ^ 53"
  shows "(quantity_at (cartItems (snd (cart_run acts (ls, initialState)))) itemId sz = Some q
            \<longrightarrow> (\<exists>n. q = Finite (of_int n) \<and> 0 < n \<and> n \<le> 2 ^ 53)) \<and>
         (currentUserId st = Some u \<and> u \<noteq> [] \<and> plain_key itemId \<and> plain_key sz \<longrightarrow>
            quantity_at (cartItems (snd (updateQuantity itemId sz (Finite 0) (ls', st))))
              itemId sz = None)"
proof -
  have "world_counts M (ls, initialState)"
    using assms(1) by (simp add: world_counts_def initialState_def cart_counts_Nil)
  then have "world_counts (M + int (length acts)) (cart_run acts (ls, initialState))"
    using cart_run_counts [of M "(ls, initialState)" M acts] assms(2,3) by simp
  then have "world_counts (2 ^ 53) (cart_run acts (ls, initialState))"
    using assms(4) by (rule world_counts_mono)
  then have cart: "cart_counts (2 ^ 53) (cartItems (snd (cart_run acts (ls, initialState))))"
    by (simp add: world_counts_def)
  have "\<exists>n. q = Finite (of_int n) \<and> 0 < n \<and> n \<le> 2 ^ 53"
    if "quantity_at (cartItems (snd (cart_run acts (ls, initialState)))) itemId sz = Some q"
  proof -
    from that cart have "count_upto (2 ^ 53) q"
      by (auto simp: quantity_at_def split: option.splits
          dest: cart_counts_lookup item_counts_lookup)
    then obtain r where r: "q = Finite r" "r \<in> \<int>" "0 < r" "r \<le> of_int (2 ^ 53)"
      by (cases q) (simp_all add: count_upto_def)
    from r(2) obtain n where n: "r = of_int n"
      by (auto elim: Ints_cases)
    have "0 < n" and "n \<le> 2 ^ 53"
      using r(3,4) unfolding n by (simp_all only: of_int_0_less_iff of_int_le_iff)
    then show ?thesis
      using r(1) n by blast
  qed
  then show ?thesis
    by (simp add: updateQuantity_def falsy_def Let_def quantity_at_updateQuantity_data_zero)
qed

text \<open>
  At a concrete input: on the empty storage, with \<open>M = 5\<close>, log in, add \<open>p1/M\<close> twice, set
  \<open>p2/L\<close> to \<open>5\<close>, set \<open>p1/M\<close> to \<open>0\<close>. The entry \<open>p2/L\<close> holds \<open>5\<close>; the entry \<open>p1/M\<close> is
  gone.
\<close>

theorem reachable_quantities_positive_witness:
  "storage_counts 5 empty_storage \<and>
   list_all (action_ok 5)
     [InitializeCart ''u1'', AddToCart ''p1'' ''M'', AddToCart ''p1'' ''M'',
      UpdateQuantity ''p2'' ''L'' (Finite 5), UpdateQuantity ''p1'' ''M'' (Finite 0)] \<and>
   (5 :: int) + int (length
     [InitializeCart ''u1'', AddToCart ''p1'' ''M'', AddToCart ''p1'' ''M'',
      UpdateQuantity ''p2'' ''L'' (Finite 5), UpdateQuantity ''p1'' ''M'' (Finite 0)]) \<le> 2 ^ 53 \<and>
   quantity_at (cartItems (snd (cart_run
      [InitializeCart ''u1'', AddToCart ''p1'' ''M'', AddToCart ''p1'' ''M'',
       UpdateQuantity ''p2'' ''L'' (Finite 5), UpdateQuantity ''p1'' ''M'' (Finite 0)]
      (empty_storage, initialState)))) ''p2'' ''L'' = Some (Finite 5) \<and>
   quantity_at (cartItems (snd (cart_run
      [InitializeCart ''u1'', AddToCart ''p1'' ''M'', AddToCart ''p1'' ''M'',
       UpdateQuantity ''p2'' ''L'' (Finite 5), UpdateQuantity ''p1'' ''M'' (Finite 0)]
      (empty_storage, initialState)))) ''p1'' ''M'' = None"
proof -
  have s: "storage_counts 5 empty_storage"
    by (simp add: storage_counts_def empty_storage_def)
  have a: "list_all (action_ok 5)
     [InitializeCart ''u1'', AddToCart ''p1'' ''M'', AddToCart ''p1'' ''M'',
      UpdateQuantity ''p2'' ''L'' (Finite 5), UpdateQuantity ''p1'' ''M'' (Finite 0)]"
    by (simp add: plain_key_def Object_prototype_keys_def count_upto_def)
  have m: "(0 :: int) \<le> 5"
    by simp
  have b: "(5 :: int) + int (length
     [InitializeCart ''u1'', AddToCart ''p1'' ''M'', AddToCart ''p1'' ''M'',
      UpdateQuantity ''p2'' ''L'' (Finite 5), UpdateQuantity ''p1'' ''M'' (Finite 0)]) \<le> 2 ^ 53"
    by simp
  have v: "cartItems (snd (cart_run
      [InitializeCart ''u1'', AddToCart ''p1'' ''M'', AddToCart ''p1'' ''M'',
       UpdateQuantity ''p2'' ''L'' (Finite 5), UpdateQuantity ''p1'' ''M'' (Finite 0)]
      (empty_storage, initialState))) = [(''p2'', [(''L'', Finite 5)])]"
    by (simp add: initializeCart_def addToCart_def addToCart_data_def updateQuantity_def
        updateQuantity_data_def delete_size_def loadCartFromStorage_cases empty_storage_def
        initialState_def falsy_def Let_def saveCartToStorage_def cartKey_def
        truthy_number_def plus_number_def)
  show ?thesis
    using reachable_quantities_positive [OF s a m b, of "''p2''" "''L''" "Finite 5"
        "\<lparr>cartItems = cart_p1_M (Finite 2), currentUserId = Some ''u1''\<rparr>" "''u1''"
        empty_storage]
      s a b
    unfolding v by (simp add: quantity_at_def)
qed

subsection \<open>C8: adding to the cart\<close>

text \<open>
  C8, as stated, for \<open>currentUserId\<close> non-null and a non-empty size: \<^verbatim>\<open>addToCart\<close> sets the
  quantity to \<open>1\<close> when there is no entry. It fails when \<open>currentUserId\<close> is the empty
  string, which is not null: the guard \<open>!state.currentUserId\<close> holds and the reducer returns
  without adding.
\<close>

theorem addToCart_empty_id_counterexample:
  "currentUserId \<lparr>cartItems = [], currentUserId = Some []\<rparr> \<noteq> None \<and>
   ''M'' \<noteq> [] \<and>
   quantity_at (cartItems \<lparr>cartItems = [], currentUserId = Some []\<rparr>) ''p1'' ''M'' = None \<and>
   quantity_at (cartItems (snd (addToCart ''p1'' ''M''
      (empty_storage, \<lparr>cartItems = [], currentUserId = Some []\<rparr>)))) ''p1'' ''M''
     \<noteq> Some (Finite 1)"
  by (simp add: addToCart_def falsy_def quantity_at_def)

text \<open>
  C8, amended: for \<open>currentUserId\<close> non-null and non-empty, a non-empty size, and an item
  id and a size that are plain keys (not names of properties of \<^verbatim>\<open>Object.prototype\<close>),
  \<^verbatim>\<open>addToCart{itemId, size}\<close> sets the quantity at \<open>(itemId, size)\<close> to \<open>1\<close> when no entry
  exists and to \<open>q + 1\<close> when the existing quantity is an integer \<open>q\<close> of magnitude below
  \<open>2^53\<close>; adding the same item and size twice to an empty cart yields quantity \<open>2\<close>.
\<close>

theorem addToCart_quantity:
  "currentUserId st = Some u \<Longrightarrow> u \<noteq> [] \<Longrightarrow> sz \<noteq> [] \<Longrightarrow> plain_key itemId \<Longrightarrow> plain_key sz \<Longrightarrow>
   (quantity_at (cartItems st) itemId sz = None \<longrightarrow>
      quantity_at (cartItems (snd (addToCart itemId sz (ls, st)))) itemId sz
        = Some (Finite 1)) \<and>
   (quantity_at (cartItems st) itemId sz = Some (Finite r) \<and> safe_integer (Finite r) \<longrightarrow>
      quantity_at (cartItems (snd (addToCart itemId sz (ls, st)))) itemId sz
        = Some (Finite (r + 1))) \<and>
   (cartItems st = [] \<longrightarrow>
      quantity_at (cartItems (snd (addToCart itemId sz (addToCart itemId sz (ls, st)))))
        itemId sz = Some (Finite 2))"
proof -
  assume user: "currentUserId st = Some u" "u \<noteq> []" and sz: "sz \<noteq> []"
  have once: "cartItems (snd (addToCart itemId sz (ls, st)))
      = addToCart_data itemId sz (cartItems st)"
    using user sz by (simp add: addToCart_def Let_def falsy_def)
  have twice: "cartItems (snd (addToCart itemId sz (addToCart itemId sz (ls, st))))
      = addToCart_data itemId sz (addToCart_data itemId sz (cartItems st))"
    using user sz by (simp add: addToCart_def Let_def falsy_def)
  have "quantity_at (addToCart_data itemId sz (addToCart_data itemId sz [])) itemId sz
      = Some (Finite 2)"
    using quantity_at_addToCart_data_finite
      [OF quantity_at_addToCart_data_new [of "[]" itemId sz]]
    by (simp add: quantity_at_def)
  then show ?thesis
    by (simp add: once twice quantity_at_addToCart_data_new quantity_at_addToCart_data_finite)
qed

text \<open>
  At a concrete input: user \<open>u1\<close>, \<open>p1/M\<close> added to the empty cart once and twice, and added
  to a cart that holds \<open>p1:{M:2}\<close>.
\<close>

theorem addToCart_quantity_witness:
  "currentUserId \<lparr>cartItems = [], currentUserId = Some ''u1''\<rparr> = Some ''u1'' \<and>
   ''u1'' \<noteq> [] \<and> ''M'' \<noteq> [] \<and> plain_key ''p1'' \<and> plain_key ''M'' \<and>
   safe_integer (Finite 2) \<and>
   quantity_at (cartItems (snd (addToCart ''p1'' ''M''
      (empty_storage, \<lparr>cartItems = [], currentUserId = Some ''u1''\<rparr>)))) ''p1'' ''M''
     = Some (Finite 1) \<and>
   quantity_at (cartItems (snd (addToCart ''p1'' ''M'' (addToCart ''p1'' ''M''
      (empty_storage, \<lparr>cartItems = [], currentUserId = Some ''u1''\<rparr>))))) ''p1'' ''M''
     = Some (Finite 2) \<and>
   quantity_at (cartItems (snd (addToCart ''p1'' ''M''
      (empty_storage, \<lparr>cartItems = cart_p1_M (Finite 2), currentUserId = Some ''u1''\<rparr>))))
      ''p1'' ''M'' = Some (Finite 3)"
proof -
  have k: "plain_key ''p1''" "plain_key ''M''"
    by (simp_all add: plain_key_def Object_prototype_keys_def)
  have i: "safe_integer (Finite 2)"
    by (simp add: safe_integer_def)
  show ?thesis
    using
      addToCart_quantity [of "\<lparr>cartItems = [], currentUserId = Some ''u1''\<rparr>" "''u1''" "''M''"
        "''p1''" empty_storage 2, OF _ _ _ k]
      addToCart_quantity [of "\<lparr>cartItems = cart_p1_M (Finite 2), currentUserId = Some ''u1''\<rparr>"
        "''u1''" "''M''" "''p1''" empty_storage 2, OF _ _ _ k]
      k i
    by (simp add: quantity_at_def cart_p1_M_def)
qed

subsection \<open>C9: the default timeout configuration\<close>


subsection \<open>C10: the cart count\<close>

text \<open>
  C10, as stated: \<^verbatim>\<open>selectCartCount\<close> returns \<open>0\<close> when \<open>currentUserId\<close> is null and the sum
  of the positive quantities when it is non-null. It fails when \<open>currentUserId\<close> is the
  empty string, which is not null: the guard \<open>!state.cart.currentUserId\<close> holds and the
  selector returns \<open>0\<close>, here for a cart whose positive quantities sum to \<open>2\<close>.
\<close>

theorem selectCartCount_empty_id_counterexample:
  "currentUserId (cart_state (example_root
      \<lparr>cart_state := \<lparr>cartItems = cart_p1_M (Finite 2), currentUserId = Some []\<rparr>\<rparr>)) \<noteq> None \<and>
   exact_count (cart_p1_M (Finite 2)) \<and>
   positive_total (cartItems (cart_state (example_root
      \<lparr>cart_state := \<lparr>cartItems = cart_p1_M (Finite 2), currentUserId = Some []\<rparr>\<rparr>))) = 2 \<and>
   selectCartCount (example_root
      \<lparr>cart_state := \<lparr>cartItems = cart_p1_M (Finite 2), currentUserId = Some []\<rparr>\<rparr>) = Finite 0"
  by (simp add: selectCartCount_def falsy_def positive_total_def quantities_def cart_p1_M_def
      positive_part_def exact_count_def countable_number_def)

text \<open>
  C10, amended: \<^verbatim>\<open>selectCartCount\<close> returns \<open>0\<close> whenever \<open>currentUserId\<close> is null or the
  empty string, even if the in-memory cart is not empty. When \<open>currentUserId\<close> is a
  non-empty string, and every strictly positive quantity of the cart is an integer and
  their sum is at most \<open>2^53\<close>, it returns the sum of all strictly positive quantities over
  every \<open>(itemId, size)\<close> entry of \<open>cartItems\<close> (entries with non-positive quantities
  contribute nothing).
\<close>

theorem selectCartCount_total:
  "(currentUserId (cart_state rootState) = None \<longrightarrow> selectCartCount rootState = Finite 0) \<and>
   (currentUserId (cart_state rootState) = Some [] \<longrightarrow> selectCartCount rootState = Finite 0) \<and>
   (currentUserId (cart_state rootState) = Some u \<and> u \<noteq> [] \<and>
    exact_count (cartItems (cart_state rootState)) \<longrightarrow>
      selectCartCount rootState = Finite (positive_total (cartItems (cart_state rootState))))"
  by (simp add: selectCartCount_def falsy_def exact_count_def count_items_eq)

text \<open>
  At a concrete input: user \<open>u1\<close> with \<open>p1:{M:2}\<close> and \<open>p2:{L:-1, S:3}\<close> counts \<open>5\<close>; the same
  cart with no user counts \<open>0\<close>.
\<close>

theorem selectCartCount_total_witness:
  "currentUserId (cart_state (example_root\<lparr>cart_state :=
      \<lparr>cartItems = [(''p1'', [(''M'', Finite 2)]), (''p2'', [(''L'', Finite (- 1)), (''S'', Finite 3)])],
       currentUserId = Some ''u1''\<rparr>\<rparr>)) = Some ''u1'' \<and> ''u1'' \<noteq> [] \<and>
   exact_count [(''p1'', [(''M'', Finite 2)]), (''p2'', [(''L'', Finite (- 1)), (''S'', Finite 3)])] \<and>
   selectCartCount (example_root\<lparr>cart_state :=
      \<lparr>cartItems = [(''p1'', [(''M'', Finite 2)]), (''p2'', [(''L'', Finite (- 1)), (''S'', Finite 3)])],
       currentUserId = Some ''u1''\<rparr>\<rparr>) = Finite 5 \<and>
   selectCartCount (example_root\<lparr>cart_state :=
      \<lparr>cartItems = [(''p1'', [(''M'', Finite 2)]), (''p2'', [(''L'', Finite (- 1)), (''S'', Finite 3)])],
       currentUserId = None\<rparr>\<rparr>) = Finite 0"
  using
    selectCartCount_total [of "example_root\<lparr>cart_state :=
      \<lparr>cartItems = [(''p1'', [(''M'', Finite 2)]), (''p2'', [(''L'', Finite (- 1)), (''S'', Finite 3)])],
       currentUserId = Some ''u1''\<rparr>\<rparr>" "''u1''"]
    selectCartCount_total [of "example_root\<lparr>cart_state :=
      \<lparr>cartItems = [(''p1'', [(''M'', Finite 2)]), (''p2'', [(''L'', Finite (- 1)), (''S'', Finite 3)])],
       currentUserId = None\<rparr>\<rparr>" "''u1''"]
  by (simp add: positive_total_def quantities_def positive_part_def exact_count_def
      countable_number_def)

end
